theory Spec2Isabelle
  imports Complex_Main "HOL-Library.Sublist"
begin

section \<open>The live-assistant hook: state, environment and handlers\<close>

text \<open>
  This theory embeds \<^verbatim>\<open>src/hooks/useLiveAssistant.ts\<close>. The hook keeps three pieces of
  React state (\<^verbatim>\<open>connectionState\<close>, \<^verbatim>\<open>error\<close>, \<^verbatim>\<open>isMuted\<close>) and a number of
  refs; each handler of the source (\<^verbatim>\<open>disconnect\<close>, \<^verbatim>\<open>connect\<close>, \<^verbatim>\<open>toggleMute\<close> and the
  callbacks \<^verbatim>\<open>onopen\<close>, \<^verbatim>\<open>onaudioprocess\<close>, \<^verbatim>\<open>onmessage\<close>, \<^verbatim>\<open>onclose\<close>,
  \<^verbatim>\<open>onerror\<close>) becomes a function from the state before the handler runs to the state
  after it.

  Conventions of the embedding:
  \<^item> Browser objects (audio contexts, buffer source nodes, script processors, sessions,
    promises, media tracks) are identified by natural numbers; a ref holding
    \<^verbatim>\<open>null\<close> is \<open>None\<close>.
  \<^item> Calls into the platform or the transport that the program can observe are appended
    to the field \<open>effects\<close>, in the order the source issues them.
  \<^item> A thrown exception (or a rejected promise of an \<^verbatim>\<open>async\<close> function) is the \<open>Inl\<close>
    branch of a sum; \<^verbatim>\<open>try { ... } catch\<close> is \<open>try_catch\<close>.
  \<^item> What the platform answers (does \<^verbatim>\<open>close()\<close> throw, what does
    \<^verbatim>\<open>ctx.currentTime\<close> read, does \<^verbatim>\<open>getUserMedia\<close> reject) is an explicit environment
    argument of the handler.
  \<^item> Times are JavaScript numbers in the source; they are modelled as reals.
  \<^item> The session promise returned by \<^verbatim>\<open>ai.live.connect\<close> is an object of the store: it
    is pending, fulfilled with a session, or rejected, and the \<^verbatim>\<open>.then\<close> continuations
    registered on it while it is pending run when it is fulfilled.
  \<^item> \<^verbatim>\<open>connect\<close> is suspended at its \<^verbatim>\<open>await\<close> of \<^verbatim>\<open>getUserMedia\<close>; what the user
    does meanwhile runs between its two halves (\<open>connect_during\<close>). Within
    \<^verbatim>\<open>disconnect\<close>, and at the \<^verbatim>\<open>await\<close> of the decoder in \<^verbatim>\<open>onmessage\<close>, no other
    handler is interleaved.
  \<^item> A \<^verbatim>\<open>useState\<close> setter updates the state at once. \<^verbatim>\<open>toggleMute\<close> lists
    \<^verbatim>\<open>isMuted\<close> among its dependencies and is called from the latest render, so it reads
    the current value; the transport callbacks are created once per \<^verbatim>\<open>connect\<close> call and
    keep the bindings of that call (see \<open>callbacks\<close> below).
  \<^item> \<^verbatim>\<open>createPcmBlob\<close>, \<^verbatim>\<open>base64ToBytes\<close> and \<^verbatim>\<open>decodeAudioData\<close> come from
    \<^verbatim>\<open>utils/audioUtils\<close>, which is not part of the sources at hand; they are parameters
    of the handlers that call them. Decoding may fail: the parameter returns the buffer
    or the exception the awaited promise is rejected with.
\<close>

subsection \<open>Data\<close>

datatype ConnectionState = DISCONNECTED | CONNECTING | CONNECTED | ERROR

text \<open>A thrown JavaScript value.\<close>

datatype exn = Exn string

text \<open>The error object that reaches the \<^verbatim>\<open>catch\<close> block of \<^verbatim>\<open>connect\<close>: its
  \<^verbatim>\<open>name\<close> and its \<^verbatim>\<open>message\<close> (which may be undefined).\<close>

record js_error =
  err_name :: string
  err_message :: "string option"

text \<open>An \<^verbatim>\<open>AudioBuffer\<close>: its frame count and sample rate. The Web Audio attribute
  \<^verbatim>\<open>duration\<close> is their quotient.\<close>

record audio_buffer =
  buf_length :: nat
  buf_sampleRate :: nat

definition duration :: "audio_buffer \<Rightarrow> real" where
  "duration b = real (buf_length b) / real (buf_sampleRate b)"

text \<open>Observable calls, in program order. \<open>UnhandledRejection\<close> records a promise that
  is rejected with no rejection handler attached.\<close>

datatype effect =
    SessionClose nat              \<comment> \<open>\<^verbatim>\<open>session.close()\<close>\<close>
  | SourceStart nat real          \<comment> \<open>\<^verbatim>\<open>sourceNode.start(t)\<close>\<close>
  | SourceStop nat                \<comment> \<open>\<^verbatim>\<open>source.stop()\<close>\<close>
  | TrackStop nat                 \<comment> \<open>\<^verbatim>\<open>track.stop()\<close>\<close>
  | ContextClose nat              \<comment> \<open>\<^verbatim>\<open>audioContext.close()\<close>\<close>
  | SendRealtimeInput nat string  \<comment> \<open>\<^verbatim>\<open>session.sendRealtimeInput({ media: pcmBlob })\<close>\<close>
  | Console string                \<comment> \<open>\<^verbatim>\<open>console.log / warn / error\<close>\<close>
  | UnhandledRejection

text \<open>The state of a promise.\<close>

datatype promise_state = PromisePending | PromiseFulfilled nat | PromiseRejected

text \<open>The state of one mounted hook: the three \<^verbatim>\<open>useState\<close> cells, the \<^verbatim>\<open>useRef\<close>
  cells, the \<^verbatim>\<open>onaudioprocess\<close> slot of every script processor created so far, the
  session promises created so far with the frames whose \<^verbatim>\<open>.then\<close> continuation waits on
  them, and the effects issued so far. \<open>inputGainRef\<close> holds the \<^verbatim>\<open>gain.value\<close> of the
  referenced gain node; \<open>mediaStreamRef\<close> holds the tracks of the referenced stream;
  \<open>audioSourcesRef\<close> lists the members of the \<^verbatim>\<open>Set\<close> in insertion order.\<close>

record hook =
  connectionState :: ConnectionState
  error :: "string option"
  isMuted :: bool
  inputAudioContextRef :: "nat option"
  outputAudioContextRef :: "nat option"
  mediaStreamRef :: "nat list option"
  inputAnalyserRef :: "nat option"
  outputAnalyserRef :: "nat option"
  inputGainRef :: "real option"
  nextStartTimeRef :: real
  audioSourcesRef :: "nat list"
  sessionPromiseRef :: "nat option"
  currentSessionRef :: "nat option"
  handler_installed :: "nat \<Rightarrow> bool"
  promise_status :: "nat \<Rightarrow> promise_state"
  queued_sends :: "nat \<Rightarrow> string list"
  effects :: "effect list"

text \<open>The state of a freshly mounted hook (lines 7--27).\<close>

definition init :: hook where
  "init = \<lparr> connectionState = DISCONNECTED, error = None, isMuted = False,
     inputAudioContextRef = None, outputAudioContextRef = None, mediaStreamRef = None,
     inputAnalyserRef = None, outputAnalyserRef = None, inputGainRef = None,
     nextStartTimeRef = 0, audioSourcesRef = [], sessionPromiseRef = None,
     currentSessionRef = None, handler_installed = (\<lambda>_. False),
     promise_status = (\<lambda>_. PromisePending), queued_sends = (\<lambda>_. []), effects = [] \<rparr>"

subsection \<open>Exceptions\<close>

text \<open>Sequencing: the rest of a handler runs only if what came before returned.\<close>

fun and_then :: "'e + 'a \<Rightarrow> ('a \<Rightarrow> 'e + 'b) \<Rightarrow> 'e + 'b" where
  "and_then (Inl e) f = Inl e"
| "and_then (Inr x) f = f x"

fun try_catch :: "exn + 'a \<Rightarrow> (exn \<Rightarrow> exn + 'a) \<Rightarrow> exn + 'a" where
  "try_catch (Inl e) h = h e"
| "try_catch (Inr x) h = Inr x"

definition emit :: "effect \<Rightarrow> hook \<Rightarrow> hook" where
  "emit e s = s\<lparr>effects := effects s @ [e]\<rparr>"

text \<open>An external call that may throw: when it throws nothing is recorded.\<close>

definition call :: "bool \<Rightarrow> effect \<Rightarrow> hook \<Rightarrow> exn + hook" where
  "call throws e s = (if throws then Inl (Exn ''thrown'') else Inr (emit e s))"

text \<open>JavaScript truthiness of a possibly undefined string.\<close>

fun truthy :: "string option \<Rightarrow> bool" where
  "truthy None = False"
| "truthy (Some []) = False"
| "truthy (Some (c # cs)) = True"

subsection \<open>\<^verbatim>\<open>disconnect\<close> (lines 29--72)\<close>

text \<open>Which of the guarded calls of \<^verbatim>\<open>disconnect\<close> throw. \<^verbatim>\<open>MediaStreamTrack.stop()\<close>
  is called outside any \<^verbatim>\<open>try\<close>; the platform defines no exception for it, and it is
  modelled as a call that always returns.\<close>

record denv =
  session_close_throws :: bool
  source_stop_throws :: "nat \<Rightarrow> bool"
  input_close_rejects :: bool
  output_close_rejects :: bool

definition close_session :: "denv \<Rightarrow> hook \<Rightarrow> exn + hook" where
  "close_session env s =
     (case currentSessionRef s of
        None \<Rightarrow> Inr s
      | Some session \<Rightarrow>
          and_then (try_catch (call (session_close_throws env) (SessionClose session) s)
                  (\<lambda>e. Inr (emit (Console ''Error closing session:'') s)))
               (\<lambda>s1. Inr (s1\<lparr>currentSessionRef := None\<rparr>)))"

fun stop_sources :: "denv \<Rightarrow> nat list \<Rightarrow> hook \<Rightarrow> exn + hook" where
  "stop_sources env [] s = Inr s"
| "stop_sources env (source # rest) s =
     and_then (try_catch (call (source_stop_throws env source) (SourceStop source) s)
             (\<lambda>e. Inr s))
          (stop_sources env rest)"

definition stop_tracks :: "hook \<Rightarrow> exn + hook" where
  "stop_tracks s =
     (case mediaStreamRef s of
        None \<Rightarrow> Inr s
      | Some tracks \<Rightarrow>
          Inr (s\<lparr>effects := effects s @ map TrackStop tracks, mediaStreamRef := None\<rparr>))"

definition close_input_context :: "denv \<Rightarrow> hook \<Rightarrow> exn + hook" where
  "close_input_context env s =
     (case inputAudioContextRef s of
        None \<Rightarrow> Inr s
      | Some ctx \<Rightarrow>
          and_then (try_catch (call (input_close_rejects env) (ContextClose ctx) s) (\<lambda>e. Inr s))
               (\<lambda>s1. Inr (s1\<lparr>inputAudioContextRef := None\<rparr>)))"

definition close_output_context :: "denv \<Rightarrow> hook \<Rightarrow> exn + hook" where
  "close_output_context env s =
     (case outputAudioContextRef s of
        None \<Rightarrow> Inr s
      | Some ctx \<Rightarrow>
          and_then (try_catch (call (output_close_rejects env) (ContextClose ctx) s) (\<lambda>e. Inr s))
               (\<lambda>s1. Inr (s1\<lparr>outputAudioContextRef := None\<rparr>)))"

definition disconnect :: "denv \<Rightarrow> hook \<Rightarrow> exn + hook" where
  "disconnect env s =
     and_then (close_session env s) (\<lambda>s1.
     and_then (Inr (s1\<lparr>sessionPromiseRef := None\<rparr>)) (\<lambda>s2.
     and_then (stop_sources env (audioSourcesRef s2) s2) (\<lambda>s3.
     and_then (Inr (s3\<lparr>audioSourcesRef := []\<rparr>)) (\<lambda>s4.
     and_then (stop_tracks s4) (\<lambda>s5.
     and_then (close_input_context env s5) (\<lambda>s6.
     and_then (close_output_context env s6) (\<lambda>s7.
     Inr (s7\<lparr>connectionState := DISCONNECTED, isMuted := False\<rparr>))))))))"

subsection \<open>\<^verbatim>\<open>toggleMute\<close> (lines 248--254)\<close>

definition toggleMute :: "hook \<Rightarrow> hook" where
  "toggleMute s =
     (case inputGainRef s of
        None \<Rightarrow> s
      | Some g \<Rightarrow>
         (let newMuteState = \<not> isMuted s in
          s\<lparr>isMuted := newMuteState,
            inputGainRef := Some (if newMuteState then 0 else 1)\<rparr>))"

subsection \<open>\<^verbatim>\<open>connect\<close> (lines 74--246)\<close>

text \<open>What the platform answers during setup, statement by statement: the API key of
  the process environment; the outcome of \<^verbatim>\<open>getUserMedia\<close> (line 85: the tracks of the
  stream, or the error it rejects with); the two audio contexts (lines 97--98) or the
  error their construction throws; whether the input analyser (lines 104--105), the
  output analyser (lines 108--109), the output gain and the stream source (lines
  113--118), the input gain (line 121) or the wiring and the script processor (lines
  123--129) throw; the script processor created; and the session promise returned by
  \<^verbatim>\<open>ai.live.connect\<close> or the error thrown on the way to it (lines 133--223).\<close>

record cenv =
  API_KEY :: "string option"
  getUserMedia :: "js_error + nat list"
  newAudioContexts :: "js_error + nat \<times> nat"
  inputAnalyser_throws :: "js_error option"
  outputAnalyser_throws :: "js_error option"
  outputGain_throws :: "js_error option"
  inputGain_throws :: "js_error option"
  scriptProcessor_throws :: "js_error option"
  newScriptProcessor :: nat
  liveConnect :: "js_error + nat"

text \<open>The callbacks object handed to \<^verbatim>\<open>ai.live.connect\<close> closes over the bindings of
  the enclosing \<^verbatim>\<open>connect\<close> call: \<open>cb_connectionState\<close> is the value of the
  \<^verbatim>\<open>const connectionState\<close> of the render in which this \<^verbatim>\<open>connect\<close> was created (the
  state when \<^verbatim>\<open>connect\<close> was invoked); later \<^verbatim>\<open>setConnectionState\<close> calls do not change
  it. \<open>cb_scriptProcessor\<close> is the script processor of this call, and
  \<open>cb_sessionPromise\<close> names the promise that this \<^verbatim>\<open>ai.live.connect\<close> call returned.\<close>

record callbacks =
  cb_connectionState :: ConnectionState
  cb_scriptProcessor :: nat
  cb_sessionPromise :: nat

definition errorMessage :: "js_error \<Rightarrow> string" where
  "errorMessage err =
     (if err_name err = ''NotAllowedError'' \<or> err_name err = ''PermissionDeniedError''
      then ''Microphone access denied. Please allow microphone permissions in your browser.''
      else if err_name err = ''NotFoundError'' \<or> err_name err = ''DevicesNotFoundError''
      then ''No microphone found. Please connect a microphone.''
      else if err_name err = ''NotReadableError'' \<or> err_name err = ''TrackStartError''
      then ''Microphone is busy or not readable. Try closing other apps using the mic.''
      else if truthy (err_message err) then the (err_message err)
      else ''Failed to connect to microphone or API.'')"

text \<open>The \<^verbatim>\<open>catch\<close> block up to, and not including, its call of \<^verbatim>\<open>disconnect\<close>
  (lines 231--243).\<close>

definition connect_failed :: "js_error \<Rightarrow> hook \<Rightarrow> hook" where
  "connect_failed err s =
     (emit (Console ''Connection failed:'') s)
       \<lparr>error := Some (errorMessage err), connectionState := ERROR\<rparr>"

definition connect_catch :: "denv \<Rightarrow> js_error \<Rightarrow> hook \<Rightarrow> exn + hook \<times> callbacks option" where
  "connect_catch denv err s =
     and_then (disconnect denv (connect_failed err s)) (\<lambda>s1. Inr (s1, None))"

text \<open>Lines 81--82: the synchronous part of the \<^verbatim>\<open>try\<close> body, up to the
  \<^verbatim>\<open>await\<close> of \<^verbatim>\<open>getUserMedia\<close>.\<close>

definition connect_begin :: "hook \<Rightarrow> hook" where
  "connect_begin s = s\<lparr>connectionState := CONNECTING, error := None\<rparr>"

text \<open>Lines 85--228: the \<^verbatim>\<open>try\<close> body from the settlement of \<^verbatim>\<open>getUserMedia\<close> on. It
  either throws, and the result is the error together with the state reached when it was
  thrown, or it completes with the callbacks it handed to the transport. \<open>captured\<close> is
  the \<^verbatim>\<open>connectionState\<close> binding the callbacks close over. A fresh gain node has gain 1;
  a fresh script processor has no \<^verbatim>\<open>onaudioprocess\<close> handler; a fresh promise is pending
  and has no continuation but the one of line 226.\<close>

definition connect_try ::
  "cenv \<Rightarrow> ConnectionState \<Rightarrow> hook \<Rightarrow> js_error \<times> hook + hook \<times> callbacks" where
  "connect_try env captured s1 =
     (case getUserMedia env of
        Inl err \<Rightarrow> Inl (err, s1)
      | Inr stream \<Rightarrow>
     (let s2 = s1\<lparr>mediaStreamRef := Some stream\<rparr> in
      case newAudioContexts env of
        Inl err \<Rightarrow> Inl (err, s2)
      | Inr (inputCtx, outputCtx) \<Rightarrow>
     (let s3 = s2\<lparr>inputAudioContextRef := Some inputCtx,
                  outputAudioContextRef := Some outputCtx\<rparr> in
      case inputAnalyser_throws env of
        Some err \<Rightarrow> Inl (err, s3)
      | None \<Rightarrow>
     (let s4 = s3\<lparr>inputAnalyserRef := Some inputCtx\<rparr> in
      case outputAnalyser_throws env of
        Some err \<Rightarrow> Inl (err, s4)
      | None \<Rightarrow>
     (let s5 = s4\<lparr>outputAnalyserRef := Some outputCtx\<rparr> in
      case outputGain_throws env of
        Some err \<Rightarrow> Inl (err, s5)
      | None \<Rightarrow>
     (case inputGain_throws env of
        Some err \<Rightarrow> Inl (err, s5)
      | None \<Rightarrow>
     (let s6 = s5\<lparr>inputGainRef := Some 1\<rparr> in
      case scriptProcessor_throws env of
        Some err \<Rightarrow> Inl (err, s6)
      | None \<Rightarrow>
     (let s7 = s6\<lparr>handler_installed :=
                    (handler_installed s6)(newScriptProcessor env := False)\<rparr> in
      case liveConnect env of
        Inl err \<Rightarrow> Inl (err, s7)
      | Inr sessionPromise \<Rightarrow>
          Inr (s7\<lparr>sessionPromiseRef := Some sessionPromise,
                  promise_status := (promise_status s7)(sessionPromise := PromisePending),
                  queued_sends := (queued_sends s7)(sessionPromise := [])\<rparr>,
               \<lparr>cb_connectionState = captured,
                cb_scriptProcessor = newScriptProcessor env,
                cb_sessionPromise = sessionPromise\<rparr>)))))))))"

text \<open>Lines 85--245: the \<^verbatim>\<open>try\<close> body and, if it throws, the \<^verbatim>\<open>catch\<close> block.\<close>

definition connect_resume ::
  "cenv \<Rightarrow> denv \<Rightarrow> ConnectionState \<Rightarrow> hook \<Rightarrow> exn + hook \<times> callbacks option" where
  "connect_resume env denv captured s1 =
     (case connect_try env captured s1 of
        Inl (err, thrown_in) \<Rightarrow> connect_catch denv err thrown_in
      | Inr (s2, cb) \<Rightarrow> Inr (s2, Some cb))"

text \<open>What the user can do while \<^verbatim>\<open>connect\<close> is suspended at line 85: the buttons shown
  in state \<open>CONNECTING\<close> call \<^verbatim>\<open>disconnect\<close> and \<^verbatim>\<open>toggleMute\<close>.\<close>

datatype user_event = UserDisconnect denv | UserToggleMute

fun user_step :: "user_event \<Rightarrow> hook \<Rightarrow> exn + hook" where
  "user_step (UserDisconnect denv) s = disconnect denv s"
| "user_step UserToggleMute s = Inr (toggleMute s)"

fun user_run :: "user_event list \<Rightarrow> hook \<Rightarrow> exn + hook" where
  "user_run [] s = Inr s"
| "user_run (ev # evs) s = and_then (user_step ev s) (user_run evs)"

text \<open>A \<^verbatim>\<open>connect\<close> call during whose \<^verbatim>\<open>await\<close> the events \<open>during\<close> take place. The
  callbacks capture the state in which the call was made.\<close>

definition connect_during ::
  "cenv \<Rightarrow> denv \<Rightarrow> user_event list \<Rightarrow> hook \<Rightarrow> exn + hook \<times> callbacks option" where
  "connect_during env denv during s =
     (if \<not> truthy (API_KEY env)
      then Inr (s\<lparr>error := Some ''API Key not found in environment variables.''\<rparr>, None)
      else and_then (user_run during (connect_begin s))
             (connect_resume env denv (connectionState s)))"

text \<open>A \<^verbatim>\<open>connect\<close> call during whose \<^verbatim>\<open>await\<close> nothing else happens.\<close>

definition connect :: "cenv \<Rightarrow> denv \<Rightarrow> hook \<Rightarrow> exn + hook \<times> callbacks option" where
  "connect env denv s = connect_during env denv [] s"

subsection \<open>The session promise\<close>

text \<open>Lines 163--167, the body of the continuation of one frame: the send, and the
  \<^verbatim>\<open>catch\<close> that logs its failure.\<close>

definition send_frame :: "nat \<Rightarrow> bool \<Rightarrow> string \<Rightarrow> hook \<Rightarrow> exn + hook" where
  "send_frame session throws pcmBlob s =
     try_catch (call throws (SendRealtimeInput session pcmBlob) s)
       (\<lambda>e. Inr (emit (Console ''Error sending input:'') s))"

text \<open>The continuations of the frames waiting on a promise, run in the order in which
  they were registered; \<open>throws i\<close> tells whether the send of the \<open>i\<close>-th of them throws.\<close>

fun flush_sends :: "nat \<Rightarrow> (nat \<Rightarrow> bool) \<Rightarrow> nat \<Rightarrow> string list \<Rightarrow> hook \<Rightarrow> exn + hook" where
  "flush_sends session throws i [] s = Inr s"
| "flush_sends session throws i (pcmBlob # rest) s =
     and_then (send_frame session (throws i) pcmBlob s)
       (flush_sends session throws (Suc i) rest)"

text \<open>The session promise \<open>p\<close> is fulfilled with \<open>session\<close>: the continuation of lines
  226--228, registered first, stores the session; then the continuations of the waiting
  frames run. A promise settles once.\<close>

definition session_resolved :: "nat \<Rightarrow> nat \<Rightarrow> (nat \<Rightarrow> bool) \<Rightarrow> hook \<Rightarrow> exn + hook" where
  "session_resolved p session throws s =
     (case promise_status s p of
        PromisePending \<Rightarrow>
          flush_sends session throws 0 (queued_sends s p)
            (s\<lparr>promise_status := (promise_status s)(p := PromiseFulfilled session),
               queued_sends := (queued_sends s)(p := []),
               currentSessionRef := Some session\<rparr>)
      | PromiseFulfilled other \<Rightarrow> Inr s
      | PromiseRejected \<Rightarrow> Inr s)"

text \<open>The session promise \<open>p\<close> is rejected: none of the continuations runs, and since
  none of the \<^verbatim>\<open>.then\<close> calls passes a rejection handler, each derived promise is
  rejected unhandled.\<close>

definition session_rejected :: "nat \<Rightarrow> hook \<Rightarrow> hook" where
  "session_rejected p s =
     (case promise_status s p of
        PromisePending \<Rightarrow>
          s\<lparr>promise_status := (promise_status s)(p := PromiseRejected),
            queued_sends := (queued_sends s)(p := []),
            effects := effects s
              @ replicate (Suc (length (queued_sends s p))) UnhandledRejection\<rparr>
      | PromiseFulfilled other \<Rightarrow> s
      | PromiseRejected \<Rightarrow> s)"

subsection \<open>The transport callbacks (lines 150--221)\<close>

definition onopen :: "callbacks \<Rightarrow> hook \<Rightarrow> hook" where
  "onopen cb s =
     (emit (Console ''Session opened'') s)
       \<lparr>connectionState := CONNECTED,
        handler_installed := (handler_installed s)(cb_scriptProcessor cb := True)\<rparr>"

text \<open>Whether \<^verbatim>\<open>sendRealtimeInput\<close> throws when the continuation of a frame runs at
  once.\<close>

record fenv =
  send_throws :: bool

definition gain_is_zero :: "hook \<Rightarrow> bool" where
  "gain_is_zero s = (case inputGainRef s of None \<Rightarrow> False | Some g \<Rightarrow> g = 0)"

text \<open>Lines 155--170. \<^verbatim>\<open>sessionPromiseRef.current.then(...)\<close> registers the send on
  the promise the ref holds: if that promise is pending the frame waits for its
  fulfilment; if it is fulfilled the continuation runs before any other handler; if it is
  rejected the continuation never runs and the derived promise is rejected unhandled.\<close>

definition onaudioprocess :: "('f \<Rightarrow> string) \<Rightarrow> fenv \<Rightarrow> 'f \<Rightarrow> hook \<Rightarrow> exn + hook" where
  "onaudioprocess createPcmBlob env inputData s =
     (if gain_is_zero s then Inr s
      else
        (let pcmBlob = createPcmBlob inputData in
         case sessionPromiseRef s of
           None \<Rightarrow> Inr s
         | Some p \<Rightarrow>
            (case promise_status s p of
               PromisePending \<Rightarrow>
                 Inr (s\<lparr>queued_sends := (queued_sends s)(p := queued_sends s p @ [pcmBlob])\<rparr>)
             | PromiseFulfilled session \<Rightarrow> send_frame session (send_throws env) pcmBlob s
             | PromiseRejected \<Rightarrow> Inr (emit UnhandledRejection s))))"

text \<open>The audio thread delivering one frame to script processor \<open>sp\<close>: the handler runs
  only if one is installed.\<close>

definition audioprocess ::
  "('f \<Rightarrow> string) \<Rightarrow> nat \<Rightarrow> fenv \<Rightarrow> 'f \<Rightarrow> hook \<Rightarrow> exn + hook" where
  "audioprocess createPcmBlob sp env inputData s =
     (if handler_installed s sp then onaudioprocess createPcmBlob env inputData s
      else Inr s)"

fun capture_frames :: "('f \<Rightarrow> string) \<Rightarrow> (fenv \<times> 'f) list \<Rightarrow> hook \<Rightarrow> exn + hook" where
  "capture_frames createPcmBlob [] s = Inr s"
| "capture_frames createPcmBlob ((env, inputData) # rest) s =
     and_then (onaudioprocess createPcmBlob env inputData s) (capture_frames createPcmBlob rest)"

text \<open>An inbound \<^verbatim>\<open>LiveServerMessage\<close>, as far as the handler reads it:
  \<^verbatim>\<open>serverContent?.modelTurn?.parts?.[0]?.inlineData?.data\<close> and
  \<^verbatim>\<open>serverContent?.interrupted\<close>.\<close>

record server_message =
  inlineData :: "string option"
  interrupted :: bool

text \<open>What the output context answers while one message is handled: the reading of
  \<^verbatim>\<open>ctx.currentTime\<close> and the node returned by \<^verbatim>\<open>ctx.createBufferSource()\<close>.\<close>

record menv =
  currentTime :: real
  newSource :: nat

text \<open>How an \<^verbatim>\<open>async\<close> handler ends: it returns, or its promise is rejected with what
  was thrown. The state it leaves behind exists in both cases.\<close>

datatype completion = Returned | Threw exn

text \<open>\<^verbatim>\<open>Set.prototype.add\<close>: a member already present is not added again, and iteration
  follows insertion order.\<close>

definition set_add :: "nat \<Rightarrow> nat list \<Rightarrow> nat list" where
  "set_add x xs = (if x \<in> set xs then xs else xs @ [x])"

text \<open>Lines 173--196. \<open>decode\<close> stands for
  \<^verbatim>\<open>await decodeAudioData(base64ToBytes(base64Audio), ctx, 24000, 1)\<close>. The cursor is
  raised to the clock before the \<^verbatim>\<open>await\<close> (line 176); if decoding fails the handler
  ends there.\<close>

definition schedule_chunk ::
  "(string \<Rightarrow> exn + audio_buffer) \<Rightarrow> menv \<Rightarrow> server_message \<Rightarrow> hook \<Rightarrow> hook \<times> completion" where
  "schedule_chunk decode env message s =
     (if truthy (inlineData message) \<and> outputAudioContextRef s \<noteq> None
      then
        (let s1 = s\<lparr>nextStartTimeRef := max (nextStartTimeRef s) (currentTime env)\<rparr> in
         case decode (the (inlineData message)) of
           Inl e \<Rightarrow> (s1, Threw e)
         | Inr audioBuffer \<Rightarrow>
            (let sourceNode = newSource env
             in ((emit (SourceStart sourceNode (nextStartTimeRef s1)) s1)
                   \<lparr>nextStartTimeRef := nextStartTimeRef s1 + duration audioBuffer,
                    audioSourcesRef := set_add sourceNode (audioSourcesRef s1)\<rparr>,
                 Returned)))
      else (s, Returned))"

text \<open>Lines 198--203. Every member of the set has had \<^verbatim>\<open>start()\<close> called before it was
  added, which is the only condition under which \<^verbatim>\<open>stop()\<close> is defined to throw; the
  calls are modelled as returning.\<close>

definition handle_interrupted :: "server_message \<Rightarrow> hook \<Rightarrow> hook" where
  "handle_interrupted message s =
     (if interrupted message
      then s\<lparr>effects := effects s @ [Console ''Model interrupted'']
                             @ map SourceStop (audioSourcesRef s),
             audioSourcesRef := [],
             nextStartTimeRef := 0\<rparr>
      else s)"

text \<open>Lines 172--204: the handler has no \<^verbatim>\<open>try\<close>, so the interruption branch runs only
  if the scheduling step returned.\<close>

definition onmessage ::
  "(string \<Rightarrow> exn + audio_buffer) \<Rightarrow> menv \<Rightarrow> server_message \<Rightarrow> hook \<Rightarrow> hook \<times> completion" where
  "onmessage decode env message s =
     (case schedule_chunk decode env message s of
        (s1, Returned) \<Rightarrow> (handle_interrupted message s1, Returned)
      | (s1, Threw e) \<Rightarrow> (s1, Threw e))"

text \<open>The completion hook \<^verbatim>\<open>sourceNode.onended\<close> (lines 193--195).\<close>

definition onended :: "nat \<Rightarrow> hook \<Rightarrow> hook" where
  "onended sourceNode s = s\<lparr>audioSourcesRef := removeAll sourceNode (audioSourcesRef s)\<rparr>"

text \<open>Messages handled one after the other; a handler that ended in a rejection has
  left its state behind, and the next message is handled in it.\<close>

fun onmessages ::
  "(string \<Rightarrow> exn + audio_buffer) \<Rightarrow> (menv \<times> server_message) list \<Rightarrow> hook \<Rightarrow> hook" where
  "onmessages decode [] s = s"
| "onmessages decode ((env, message) # rest) s =
     onmessages decode rest (fst (onmessage decode env message s))"

text \<open>Lines 205--210. The test reads the binding the callback closed over.\<close>

definition onclose :: "callbacks \<Rightarrow> denv \<Rightarrow> hook \<Rightarrow> exn + hook" where
  "onclose cb denv s =
     (let s1 = emit (Console ''Session closed'') s in
      if cb_connectionState cb = CONNECTED then disconnect denv s1 else Inr s1)"

text \<open>Lines 211--221. \<^verbatim>\<open>toLowerCase\<close> is modelled on ASCII letters, and
  \<^verbatim>\<open>includes\<close> is the test for a contiguous sublist.\<close>

definition toLowerCase :: "string \<Rightarrow> string" where
  "toLowerCase str =
     map (\<lambda>c. if 65 \<le> (of_char c :: nat) \<and> (of_char c :: nat) \<le> 90
              then char_of ((of_char c :: nat) + 32) else c) str"

definition onerror :: "denv \<Rightarrow> js_error \<Rightarrow> hook \<Rightarrow> exn + hook" where
  "onerror denv e s =
     (let s1 = emit (Console ''Session error'') s;
          msg = (if truthy (err_message e) then the (err_message e) else ''Connection error'');
          s2 = (if sublist ''network'' (toLowerCase msg)
                then s1\<lparr>error := Some ''Network Error: Could not connect to Gemini Live. Check your API Key and internet connection.''\<rparr>
                else s1\<lparr>error := Some (''Session Error: '' @ msg)\<rparr>)
      in disconnect denv s2)"

subsection \<open>One session: a \<^verbatim>\<open>connect\<close> and the events that follow it\<close>

text \<open>The events that can reach the hook after a \<^verbatim>\<open>connect\<close> call has opened a session:
  the callbacks of that session, frames delivered to its script processor, the end of a
  playback node, the settlement of its session promise, and the user's
  \<^verbatim>\<open>disconnect\<close> (also run when the component unmounts) and \<^verbatim>\<open>toggleMute\<close>. A message
  handler that ends in a rejection raises nothing in the transport that called it.\<close>

datatype 'f event =
    Open
  | Frame fenv 'f
  | Message menv server_message
  | Ended nat
  | Resolved nat "nat \<Rightarrow> bool"
  | Rejected
  | Close denv
  | SessionError denv js_error
  | Disconnect denv
  | ToggleMute

fun step ::
  "(string \<Rightarrow> exn + audio_buffer) \<Rightarrow> ('f \<Rightarrow> string) \<Rightarrow> callbacks \<Rightarrow> 'f event \<Rightarrow> hook \<Rightarrow> exn + hook" where
  "step decode createPcmBlob cb Open s = Inr (onopen cb s)"
| "step decode createPcmBlob cb (Frame env inputData) s =
     audioprocess createPcmBlob (cb_scriptProcessor cb) env inputData s"
| "step decode createPcmBlob cb (Message env message) s =
     Inr (fst (onmessage decode env message s))"
| "step decode createPcmBlob cb (Ended sourceNode) s = Inr (onended sourceNode s)"
| "step decode createPcmBlob cb (Resolved session throws) s =
     session_resolved (cb_sessionPromise cb) session throws s"
| "step decode createPcmBlob cb Rejected s = Inr (session_rejected (cb_sessionPromise cb) s)"
| "step decode createPcmBlob cb (Close denv) s = onclose cb denv s"
| "step decode createPcmBlob cb (SessionError denv e) s = onerror denv e s"
| "step decode createPcmBlob cb (Disconnect denv) s = disconnect denv s"
| "step decode createPcmBlob cb ToggleMute s = Inr (toggleMute s)"

fun run ::
  "(string \<Rightarrow> exn + audio_buffer) \<Rightarrow> ('f \<Rightarrow> string) \<Rightarrow> callbacks \<Rightarrow> 'f event list \<Rightarrow> hook \<Rightarrow> exn + hook" where
  "run decode createPcmBlob cb [] s = Inr s"
| "run decode createPcmBlob cb (ev # evs) s =
     and_then (step decode createPcmBlob cb ev s) (run decode createPcmBlob cb evs)"

text \<open>A \<^verbatim>\<open>connect\<close> call followed by events of the session it opened (none are
  delivered if it opened no session); in \<open>connect_during_then\<close> the user acts during the
  \<^verbatim>\<open>await\<close> of the call as well.\<close>

definition connect_then ::
  "(string \<Rightarrow> exn + audio_buffer) \<Rightarrow> ('f \<Rightarrow> string) \<Rightarrow> cenv \<Rightarrow> denv \<Rightarrow> 'f event list \<Rightarrow> hook \<Rightarrow> exn + hook" where
  "connect_then decode createPcmBlob env denv evs s =
     and_then (connect env denv s)
       (\<lambda>(s1, opened). case opened of
            None \<Rightarrow> Inr s1
          | Some cb \<Rightarrow> run decode createPcmBlob cb evs s1)"

definition connect_during_then ::
  "(string \<Rightarrow> exn + audio_buffer) \<Rightarrow> ('f \<Rightarrow> string) \<Rightarrow> cenv \<Rightarrow> denv \<Rightarrow> user_event list
     \<Rightarrow> 'f event list \<Rightarrow> hook \<Rightarrow> exn + hook" where
  "connect_during_then decode createPcmBlob env denv during evs s =
     and_then (connect_during env denv during s)
       (\<lambda>(s1, opened). case opened of
            None \<Rightarrow> Inr s1
          | Some cb \<Rightarrow> run decode createPcmBlob cb evs s1)"

subsection \<open>Concrete environments\<close>

text \<open>A platform on which every setup step succeeds; one without an API key; one whose
  microphone permission is denied; one whose input gain node cannot be created; a
  teardown environment in which nothing throws and one in which every guarded call
  throws; stand-ins for the codec functions, one of which rejects every payload.\<close>

definition env_ok :: cenv where
  "env_ok = \<lparr> API_KEY = Some ''k'', getUserMedia = Inr [0], newAudioContexts = Inr (1, 2),
     inputAnalyser_throws = None, outputAnalyser_throws = None, outputGain_throws = None,
     inputGain_throws = None, scriptProcessor_throws = None,
     newScriptProcessor = 3, liveConnect = Inr 4 \<rparr>"

definition env_no_key :: cenv where
  "env_no_key = env_ok \<lparr> API_KEY := None \<rparr>"

definition env_mic_denied :: cenv where
  "env_mic_denied = env_ok
     \<lparr> getUserMedia := Inl \<lparr> err_name = ''NotAllowedError'', err_message = Some ''denied'' \<rparr> \<rparr>"

definition env_no_gain :: cenv where
  "env_no_gain = env_ok
     \<lparr> inputGain_throws := Some \<lparr> err_name = ''InvalidStateError'', err_message = None \<rparr> \<rparr>"

definition denv_ok :: denv where
  "denv_ok = \<lparr> session_close_throws = False, source_stop_throws = (\<lambda>_. False),
     input_close_rejects = False, output_close_rejects = False \<rparr>"

definition denv_all_throw :: denv where
  "denv_all_throw = \<lparr> session_close_throws = True, source_stop_throws = (\<lambda>_. True),
     input_close_rejects = True, output_close_rejects = True \<rparr>"

definition decode_half_second :: "string \<Rightarrow> exn + audio_buffer" where
  "decode_half_second d = Inr \<lparr> buf_length = 12000, buf_sampleRate = 24000 \<rparr>"

definition decode_rejects :: "string \<Rightarrow> exn + audio_buffer" where
  "decode_rejects d = Inl (Exn ''CodecError'')"

definition blob_of :: "nat \<Rightarrow> string" where
  "blob_of n = replicate n (CHR ''A'')"

section \<open>Properties\<close>

subsection \<open>Unfolding rules and auxiliary facts\<close>

lemmas handler_defs =
  connect_then_def connect_during_then_def connect_def connect_during_def connect_resume_def
  connect_try_def connect_begin_def connect_catch_def connect_failed_def errorMessage_def
  disconnect_def close_session_def stop_tracks_def close_input_context_def
  close_output_context_def call_def emit_def onopen_def onclose_def audioprocess_def
  onaudioprocess_def send_frame_def gain_is_zero_def session_resolved_def
  session_rejected_def toggleMute_def onmessage_def schedule_chunk_def
  handle_interrupted_def onended_def set_add_def Let_def

lemmas example_defs =
  init_def env_ok_def env_no_key_def env_mic_denied_def env_no_gain_def denv_ok_def
  denv_all_throw_def decode_half_second_def decode_rejects_def

lemma stop_sources_eq:
  "stop_sources env ns s =
     Inr (s\<lparr>effects := effects s @ map SourceStop (filter (\<lambda>n. \<not> source_stop_throws env n) ns)\<rparr>)"
  by (induction ns arbitrary: s) (simp_all add: call_def emit_def)

lemma disconnect_result:
  "\<exists>s'. disconnect env s = Inr s' \<and>
     connectionState s' = DISCONNECTED \<and> isMuted s' = False \<and>
     currentSessionRef s' = None \<and> sessionPromiseRef s' = None \<and>
     audioSourcesRef s' = [] \<and> mediaStreamRef s' = None \<and>
     inputAudioContextRef s' = None \<and> outputAudioContextRef s' = None \<and>
     error s' = error s \<and> inputGainRef s' = inputGainRef s \<and>
     handler_installed s' = handler_installed s \<and>
     nextStartTimeRef s' = nextStartTimeRef s \<and>
     promise_status s' = promise_status s \<and> queued_sends s' = queued_sends s"
  by (cases "session_close_throws env"; cases "input_close_rejects env"; cases "output_close_rejects env")
     (simp_all add: disconnect_def close_session_def stop_sources_eq stop_tracks_def
      close_input_context_def close_output_context_def call_def emit_def
      split: option.splits)

lemma send_frame_eq:
  "send_frame session throws pcmBlob s =
     Inr (emit (if throws then Console ''Error sending input:''
                else SendRealtimeInput session pcmBlob) s)"
  by (simp add: send_frame_def call_def)

lemma flush_sends_eq:
  "flush_sends session throws i blobs s =
     Inr (s\<lparr>effects := effects s
            @ map (\<lambda>(j, pcmBlob). if throws j then Console ''Error sending input:''
                                  else SendRealtimeInput session pcmBlob)
                (enumerate i blobs)\<rparr>)"
  by (induction blobs arbitrary: i s) (simp_all add: send_frame_eq emit_def)






lemma onmessage_fields:
  "connectionState (fst (onmessage d e m s)) = connectionState s"
  "sessionPromiseRef (fst (onmessage d e m s)) = sessionPromiseRef s"
  "handler_installed (fst (onmessage d e m s)) = handler_installed s"
  "outputAudioContextRef (fst (onmessage d e m s)) = outputAudioContextRef s"
  by (simp_all add: onmessage_def handle_interrupted_def schedule_chunk_def emit_def Let_def
      split: sum.splits)















subsection \<open>Playback scheduling\<close>

lemma onmessages_snoc:
  "onmessages d (evs @ [(e, m)]) s = fst (onmessage d e m (onmessages d evs s))"
  by (induction evs arbitrary: s) auto

lemma onmessages_output_context:
  "outputAudioContextRef (onmessages d evs s) = outputAudioContextRef s"
  by (induction evs arbitrary: s) (auto simp: onmessage_fields)

lemma duration_nonneg: "0 \<le> duration b"
  by (simp add: duration_def)

lemma schedule_chunk_scheduled:
  assumes "truthy (inlineData m)" and "outputAudioContextRef s \<noteq> None"
      and "d (the (inlineData m)) = Inr audioBuffer"
  shows "effects (fst (schedule_chunk d e m s)) =
           effects s @ [SourceStart (newSource e) (max (nextStartTimeRef s) (currentTime e))]"
    and "nextStartTimeRef (fst (schedule_chunk d e m s)) =
           max (nextStartTimeRef s) (currentTime e) + duration audioBuffer"
    and "audioSourcesRef (fst (schedule_chunk d e m s)) = set_add (newSource e) (audioSourcesRef s)"
    and "snd (schedule_chunk d e m s) = Returned"
  using assms by (simp_all add: schedule_chunk_def Let_def emit_def)

text \<open>Whether or not decoding succeeds, the scheduling step does not lower the cursor.\<close>

lemma schedule_chunk_cursor_mono:
  "nextStartTimeRef s \<le> nextStartTimeRef (fst (schedule_chunk d e m s))"
proof -
  have "a \<le> max a b + duration x" for a b x
    using duration_nonneg [of x] by (simp add: add_increasing2)
  then show ?thesis
    by (auto simp: schedule_chunk_def Let_def emit_def split: sum.splits)
qed

text \<open>The scheduling step returns unless it reached the decoder and the decoder
  failed.\<close>

lemma schedule_chunk_returns_iff:
  "snd (schedule_chunk d e m s) = Returned \<longleftrightarrow>
     \<not> (truthy (inlineData m) \<and> outputAudioContextRef s \<noteq> None)
     \<or> (\<exists>audioBuffer. d (the (inlineData m)) = Inr audioBuffer)"
  by (auto simp: schedule_chunk_def Let_def split: sum.splits)

text \<open>
  Claim C1. Let messages \<open>evs\<close> have been handled in order, and let the next message carry
  an audio chunk, the output context (whose clock the handler reads) being present and
  the chunk being decoded to a buffer. Then the scheduling step of the handler returns
  and issues exactly one call, the start of the new source node at
  \<open>startTime = max cursor clock\<close>; it sets the cursor to \<open>startTime\<close> plus the duration of
  the decoded buffer; the cursor has not decreased; and if the clock has not passed the
  cursor, the chunk starts exactly where the previous one ends. Unless the message also
  carries the interruption flag, this is the state in which the handler returns.
\<close>

theorem playback_cursor_schedule:
  assumes "outputAudioContextRef s \<noteq> None"
      and "truthy (inlineData m)"
      and "decode (the (inlineData m)) = Inr audioBuffer"
  shows "let prev = onmessages decode evs s;
             startTime = max (nextStartTimeRef prev) (currentTime env);
             s' = fst (schedule_chunk decode env m prev)
         in snd (schedule_chunk decode env m prev) = Returned
          \<and> effects s' = effects prev @ [SourceStart (newSource env) startTime]
          \<and> nextStartTimeRef s' = startTime + duration audioBuffer
          \<and> nextStartTimeRef prev \<le> nextStartTimeRef s'
          \<and> (currentTime env \<le> nextStartTimeRef prev \<longrightarrow> startTime = nextStartTimeRef prev)
          \<and> (\<not> interrupted m \<longrightarrow> onmessages decode (evs @ [(env, m)]) s = s')"
proof -
  have ctx: "outputAudioContextRef (onmessages decode evs s) \<noteq> None"
    using assms(1) by (simp add: onmessages_output_context)
  note sc = schedule_chunk_scheduled [where d = decode and e = env, OF assms(2) ctx assms(3)]
  have r: "schedule_chunk decode env m (onmessages decode evs s)
      = (fst (schedule_chunk decode env m (onmessages decode evs s)), Returned)"
    using sc(4) by (metis prod.collapse)
  have "0 \<le> duration audioBuffer" by (rule duration_nonneg)
  then show ?thesis
    using sc r
    by (auto simp: Let_def onmessages_snoc onmessage_def handle_interrupted_def
        split: prod.splits completion.splits)
qed

text \<open>Two chunks of half a second: the first arrives at clock 1 and ends at 3/2, the
  second arrives at clock 5/4, starts at 3/2 and ends at 2.\<close>

theorem playback_cursor_schedule_witness:
  "(let s0 = init\<lparr>outputAudioContextRef := Some 2\<rparr>;
        c1 = \<lparr>inlineData = Some ''AAAA'', interrupted = False\<rparr>;
        s1 = onmessages decode_half_second [(\<lparr>currentTime = 1, newSource = 10\<rparr>, c1)] s0;
        s2 = onmessages decode_half_second
               ([(\<lparr>currentTime = 1, newSource = 10\<rparr>, c1)] @ [(\<lparr>currentTime = 5/4, newSource = 11\<rparr>, c1)]) s0
    in outputAudioContextRef s0 \<noteq> None \<and> truthy (inlineData c1) \<and> \<not> interrupted c1
     \<and> decode_half_second (the (inlineData c1)) = Inr \<lparr>buf_length = 12000, buf_sampleRate = 24000\<rparr>
     \<and> nextStartTimeRef s1 = 3/2
     \<and> effects s2 = effects s1 @ [SourceStart 11 (3/2)]
     \<and> nextStartTimeRef s2 = 2)"
proof -
  let ?s0 = "init\<lparr>outputAudioContextRef := Some 2\<rparr>"
  let ?c1 = "\<lparr>inlineData = Some ''AAAA'', interrupted = False\<rparr>"
  let ?e1 = "\<lparr>currentTime = 1, newSource = 10\<rparr>"
  let ?e2 = "\<lparr>currentTime = 5/4, newSource = 11\<rparr>"
  let ?b = "\<lparr>buf_length = 12000, buf_sampleRate = 24000\<rparr>"
  have h1: "outputAudioContextRef ?s0 \<noteq> None" by simp
  have h2: "truthy (inlineData ?c1)" by simp
  have h3: "\<not> interrupted ?c1" by simp
  have h4: "decode_half_second (the (inlineData ?c1)) = Inr ?b"
    by (simp add: decode_half_second_def)
  have d: "duration ?b = 1/2"
    by (simp add: duration_def)
  have s1: "nextStartTimeRef (onmessages decode_half_second [(?e1, ?c1)] ?s0) = 3/2"
    using playback_cursor_schedule
      [where decode = decode_half_second and evs = "[]" and env = ?e1, OF h1 h2 h4] h3
    by (simp add: Let_def d init_def)
  show ?thesis
    using playback_cursor_schedule
      [where decode = decode_half_second and evs = "[(?e1, ?c1)]" and env = ?e2, OF h1 h2 h4]
      s1 h3 h4
    by (simp add: Let_def d)
qed

text \<open>
  Claim C2 fails as stated. Three sources are active and the cursor is 9; a message
  arrives that carries both an audio payload and the interruption flag, and its payload
  cannot be decoded. The handler ends in a rejection at the decoder: the three sources
  are still in the set, no stop call has been issued, and the cursor is 9, not 0.
\<close>

theorem interruption_skipped_when_decode_fails:
  "snd (onmessage decode_rejects \<lparr>currentTime = 3, newSource = 13\<rparr>
          \<lparr>inlineData = Some ''A'', interrupted = True\<rparr>
          (init\<lparr>outputAudioContextRef := Some 2, nextStartTimeRef := 9,
                audioSourcesRef := [10, 11, 12]\<rparr>)) = Threw (Exn ''CodecError'')
 \<and> audioSourcesRef (fst (onmessage decode_rejects \<lparr>currentTime = 3, newSource = 13\<rparr>
          \<lparr>inlineData = Some ''A'', interrupted = True\<rparr>
          (init\<lparr>outputAudioContextRef := Some 2, nextStartTimeRef := 9,
                audioSourcesRef := [10, 11, 12]\<rparr>))) = [10, 11, 12]
 \<and> effects (fst (onmessage decode_rejects \<lparr>currentTime = 3, newSource = 13\<rparr>
          \<lparr>inlineData = Some ''A'', interrupted = True\<rparr>
          (init\<lparr>outputAudioContextRef := Some 2, nextStartTimeRef := 9,
                audioSourcesRef := [10, 11, 12]\<rparr>))) = []
 \<and> nextStartTimeRef (fst (onmessage decode_rejects \<lparr>currentTime = 3, newSource = 13\<rparr>
          \<lparr>inlineData = Some ''A'', interrupted = True\<rparr>
          (init\<lparr>outputAudioContextRef := Some 2, nextStartTimeRef := 9,
                audioSourcesRef := [10, 11, 12]\<rparr>))) = 9"
  by (simp add: onmessage_def schedule_chunk_def decode_rejects_def init_def Let_def)

text \<open>
  Claim C2, amended. Let a message carry the interruption flag, and let its scheduling
  step return (it carries no audio payload, or there is no output context, or its payload
  is decoded). Then the handler returns; the set of active sources is empty and the
  cursor is 0; a stop call has been issued for every source that was in the set (those
  present before the message and the one the message itself may have scheduled), after
  the calls of the scheduling step. A chunk scheduled next starts at \<open>max 0 clock\<close>,
  which is not before the clock and does not depend on the cursor before the
  interruption.
\<close>

theorem interruption_clears_playback:
  assumes "interrupted m"
      and "snd (schedule_chunk decode env m s) = Returned"
  shows "let s1 = fst (schedule_chunk decode env m s);
             s' = fst (onmessage decode env m s)
         in snd (onmessage decode env m s) = Returned
          \<and> audioSourcesRef s' = []
          \<and> nextStartTimeRef s' = 0
          \<and> set (audioSourcesRef s) \<subseteq> set (audioSourcesRef s1)
          \<and> effects s' = effects s1 @ [Console ''Model interrupted''] @ map SourceStop (audioSourcesRef s1)
          \<and> (\<forall>n \<in> set (audioSourcesRef s1). SourceStop n \<in> set (effects s'))
          \<and> (\<forall>env2 m2 audioBuffer. truthy (inlineData m2) \<and> outputAudioContextRef s \<noteq> None
                  \<and> decode (the (inlineData m2)) = Inr audioBuffer \<longrightarrow>
                effects (fst (schedule_chunk decode env2 m2 s')) =
                   effects s' @ [SourceStart (newSource env2) (max 0 (currentTime env2))]
              \<and> currentTime env2 \<le> max 0 (currentTime env2))"
proof -
  obtain s1 where r: "schedule_chunk decode env m s = (s1, Returned)"
    using assms(2) by (cases "schedule_chunk decode env m s") auto
  have s1: "fst (schedule_chunk decode env m s) = s1"
    by (simp add: r)
  have sub: "set (audioSourcesRef s) \<subseteq> set (audioSourcesRef (fst (schedule_chunk decode env m s)))"
    by (auto simp: schedule_chunk_def Let_def emit_def set_add_def split: sum.splits)
  have ctx: "outputAudioContextRef (fst (onmessage decode env m s)) = outputAudioContextRef s"
    by (rule onmessage_fields)
  have om: "onmessage decode env m s = (handle_interrupted m s1, Returned)"
    by (simp add: onmessage_def r)
  have next_chunk: "effects (fst (schedule_chunk decode env2 m2 (fst (onmessage decode env m s)))) =
        effects (fst (onmessage decode env m s))
          @ [SourceStart (newSource env2) (max 0 (currentTime env2))]"
    if "truthy (inlineData m2)" "outputAudioContextRef s \<noteq> None"
       "decode (the (inlineData m2)) = Inr audioBuffer" for env2 m2 audioBuffer
  proof -
    have c: "outputAudioContextRef (fst (onmessage decode env m s)) \<noteq> None"
      using that(2) ctx by simp
    have z: "nextStartTimeRef (fst (onmessage decode env m s)) = 0"
      using assms(1) by (simp add: om handle_interrupted_def)
    from schedule_chunk_scheduled(1) [where d = decode and e = env2, OF that(1) c that(3)] z
    show ?thesis by simp
  qed
  from assms(1) sub next_chunk show ?thesis
    by (simp add: Let_def om s1 handle_interrupted_def) blast
qed

text \<open>Three active sources and a cursor of 9; the interruption arrives at clock 3, and
  a chunk arriving at clock 4 starts at 4.\<close>

theorem interruption_clears_playback_witness:
  "(let s = init\<lparr>outputAudioContextRef := Some 2, nextStartTimeRef := 9,
                  audioSourcesRef := [10, 11, 12]\<rparr>;
        m = \<lparr>inlineData = None, interrupted = True\<rparr>;
        s' = fst (onmessage decode_half_second \<lparr>currentTime = 3, newSource = 13\<rparr> m s)
    in interrupted m
     \<and> snd (schedule_chunk decode_half_second \<lparr>currentTime = 3, newSource = 13\<rparr> m s) = Returned
     \<and> audioSourcesRef s' = [] \<and> nextStartTimeRef s' = 0
     \<and> effects s' = [Console ''Model interrupted'', SourceStop 10, SourceStop 11, SourceStop 12]
     \<and> effects (fst (schedule_chunk decode_half_second \<lparr>currentTime = 4, newSource = 14\<rparr>
                  \<lparr>inlineData = Some ''AAAA'', interrupted = False\<rparr> s'))
         = effects s' @ [SourceStart 14 4])"
proof -
  let ?s = "init\<lparr>outputAudioContextRef := Some 2, nextStartTimeRef := 9,
                  audioSourcesRef := [10, 11, 12]\<rparr>"
  let ?m = "\<lparr>inlineData = None, interrupted = True\<rparr>"
  let ?e = "\<lparr>currentTime = 3, newSource = 13\<rparr>"
  have h: "interrupted ?m" by simp
  have sc: "schedule_chunk decode_half_second ?e ?m ?s = (?s, Returned)"
    by (simp add: schedule_chunk_def)
  then have h2: "snd (schedule_chunk decode_half_second ?e ?m ?s) = Returned" by simp
  have dec: "decode_half_second (the (inlineData \<lparr>inlineData = Some ''AAAA'', interrupted = False\<rparr>))
      = Inr \<lparr>buf_length = 12000, buf_sampleRate = 24000\<rparr>"
    by (simp add: decode_half_second_def)
  show ?thesis
    using interruption_clears_playback [OF h h2] h h2 dec
    apply (simp only: Let_def sc fst_conv snd_conv)
    apply (elim conjE)
    apply (intro conjI)
         apply simp
        apply simp
       apply simp
      apply simp
     apply (simp add: init_def)
    apply (drule spec [of _ "\<lparr>currentTime = 4, newSource = 14\<rparr>"])
    apply (drule spec [of _ "\<lparr>inlineData = Some ''AAAA'', interrupted = False\<rparr>"])
    apply (drule spec [of _ "\<lparr>buf_length = 12000, buf_sampleRate = 24000\<rparr>"])
    apply simp
    done
qed

subsection \<open>Teardown\<close>

lemma disconnect_effects:
  "\<exists>s'. disconnect env s = Inr s' \<and>
     effects s' = effects s
       @ (case currentSessionRef s of None \<Rightarrow> []
          | Some c \<Rightarrow> [if session_close_throws env then Console ''Error closing session:''
                       else SessionClose c])
       @ map SourceStop (filter (\<lambda>n. \<not> source_stop_throws env n) (audioSourcesRef s))
       @ (case mediaStreamRef s of None \<Rightarrow> [] | Some tracks \<Rightarrow> map TrackStop tracks)
       @ (case inputAudioContextRef s of None \<Rightarrow> []
          | Some c \<Rightarrow> if input_close_rejects env then [] else [ContextClose c])
       @ (case outputAudioContextRef s of None \<Rightarrow> []
          | Some c \<Rightarrow> if output_close_rejects env then [] else [ContextClose c])"
  by (cases "session_close_throws env"; cases "input_close_rejects env"; cases "output_close_rejects env")
     (simp_all add: disconnect_def close_session_def stop_sources_eq stop_tracks_def
      close_input_context_def close_output_context_def call_def emit_def
      split: option.splits)

lemma disconnect_cleared:
  assumes "connectionState s = DISCONNECTED" "isMuted s = False" "currentSessionRef s = None"
    "sessionPromiseRef s = None" "audioSourcesRef s = []" "mediaStreamRef s = None"
    "inputAudioContextRef s = None" "outputAudioContextRef s = None"
  shows "disconnect env s = Inr s"
  using assms
  by (cases s) (simp add: disconnect_def close_session_def stop_tracks_def
      close_input_context_def close_output_context_def)

text \<open>
  Claim C5. From any state and whichever of its guarded calls throw, \<^verbatim>\<open>disconnect\<close>
  returns. The state it returns is \<open>DISCONNECTED\<close> with the session handle, the session
  promise, the media stream, both audio contexts, the set of active sources and the mute
  state cleared; the calls it has issued are those of every sub-step that did not itself
  throw, so that a failing sub-step removes its own call only. A second \<^verbatim>\<open>disconnect\<close>,
  again under any failures, returns the very same state.
\<close>

theorem disconnect_never_raises_idempotent:
  "\<exists>s1. disconnect env1 s = Inr s1 \<and> disconnect env2 s1 = Inr s1
     \<and> connectionState s1 = DISCONNECTED
     \<and> currentSessionRef s1 = None \<and> sessionPromiseRef s1 = None
     \<and> mediaStreamRef s1 = None
     \<and> inputAudioContextRef s1 = None \<and> outputAudioContextRef s1 = None
     \<and> audioSourcesRef s1 = [] \<and> isMuted s1 = False
     \<and> effects s1 = effects s
       @ (case currentSessionRef s of None \<Rightarrow> []
          | Some c \<Rightarrow> [if session_close_throws env1 then Console ''Error closing session:''
                       else SessionClose c])
       @ map SourceStop (filter (\<lambda>n. \<not> source_stop_throws env1 n) (audioSourcesRef s))
       @ (case mediaStreamRef s of None \<Rightarrow> [] | Some tracks \<Rightarrow> map TrackStop tracks)
       @ (case inputAudioContextRef s of None \<Rightarrow> []
          | Some c \<Rightarrow> if input_close_rejects env1 then [] else [ContextClose c])
       @ (case outputAudioContextRef s of None \<Rightarrow> []
          | Some c \<Rightarrow> if output_close_rejects env1 then [] else [ContextClose c])"
proof -
  from disconnect_result [of env1 s] obtain s1 where s1: "disconnect env1 s = Inr s1"
    "connectionState s1 = DISCONNECTED" "isMuted s1 = False" "currentSessionRef s1 = None"
    "sessionPromiseRef s1 = None" "audioSourcesRef s1 = []" "mediaStreamRef s1 = None"
    "inputAudioContextRef s1 = None" "outputAudioContextRef s1 = None"
    by blast
  have again: "disconnect env2 s1 = Inr s1"
    by (rule disconnect_cleared) (fact s1)+
  from disconnect_effects [of env1 s] s1(1) again s1(2-) show ?thesis
    by auto
qed

text \<open>A connected, muted hook with two active sources, torn down while every guarded
  call throws: only the warning of the failed close and the track stop are issued, and
  all is cleared.\<close>

theorem disconnect_never_raises_idempotent_witness:
  "(let s = init\<lparr>connectionState := CONNECTED, isMuted := True, currentSessionRef := Some 7,
                  sessionPromiseRef := Some 4, audioSourcesRef := [10, 11],
                  mediaStreamRef := Some [0], inputAudioContextRef := Some 1,
                  outputAudioContextRef := Some 2\<rparr>;
        s1 = projr (disconnect denv_all_throw s)
    in disconnect denv_all_throw s = Inr s1 \<and> disconnect denv_ok s1 = Inr s1
     \<and> connectionState s1 = DISCONNECTED \<and> isMuted s1 = False
     \<and> currentSessionRef s1 = None \<and> audioSourcesRef s1 = []
     \<and> effects s1 = [Console ''Error closing session:'', TrackStop 0])"
proof -
  let ?s = "init\<lparr>connectionState := CONNECTED, isMuted := True, currentSessionRef := Some 7,
                  sessionPromiseRef := Some 4, audioSourcesRef := [10, 11],
                  mediaStreamRef := Some [0], inputAudioContextRef := Some 1,
                  outputAudioContextRef := Some 2\<rparr>"
  from disconnect_never_raises_idempotent [of denv_all_throw ?s denv_ok]
  obtain s1 where s1: "disconnect denv_all_throw ?s = Inr s1" "disconnect denv_ok s1 = Inr s1"
    "connectionState s1 = DISCONNECTED" "isMuted s1 = False" "currentSessionRef s1 = None"
    "audioSourcesRef s1 = []"
    "effects s1 = effects ?s
       @ (case currentSessionRef ?s of None \<Rightarrow> []
          | Some c \<Rightarrow> [if session_close_throws denv_all_throw
                       then Console ''Error closing session:'' else SessionClose c])
       @ map SourceStop (filter (\<lambda>n. \<not> source_stop_throws denv_all_throw n) (audioSourcesRef ?s))
       @ (case mediaStreamRef ?s of None \<Rightarrow> [] | Some tracks \<Rightarrow> map TrackStop tracks)
       @ (case inputAudioContextRef ?s of None \<Rightarrow> []
          | Some c \<Rightarrow> if input_close_rejects denv_all_throw then [] else [ContextClose c])
       @ (case outputAudioContextRef ?s of None \<Rightarrow> []
          | Some c \<Rightarrow> if output_close_rejects denv_all_throw then [] else [ContextClose c])"
    by blast
  from s1(7) have fx: "effects s1 = [Console ''Error closing session:'', TrackStop 0]"
    by (simp add: init_def denv_all_throw_def)
  from s1(1-6) fx show ?thesis
    by (simp add: Let_def)
qed


subsection \<open>Capture\<close>

text \<open>
  Claim C9 fails as stated. An unmuted, connected hook holds no session promise (the
  transport is not ready): the frame is dropped and nothing at all is logged. And when
  the promise it holds has been rejected, the frame is dropped with an unhandled
  rejection, and again no log entry.
\<close>

theorem frame_dropped_without_log:
  "\<not> gain_is_zero (init\<lparr>connectionState := CONNECTED, inputGainRef := Some 1\<rparr>)
 \<and> onaudioprocess blob_of \<lparr>send_throws = True\<rparr> (5::nat)
      (init\<lparr>connectionState := CONNECTED, inputGainRef := Some 1\<rparr>)
      = Inr (init\<lparr>connectionState := CONNECTED, inputGainRef := Some 1\<rparr>)
 \<and> effects (init\<lparr>connectionState := CONNECTED, inputGainRef := Some 1\<rparr>) = []
 \<and> map_sum id effects
      (onaudioprocess blob_of \<lparr>send_throws = True\<rparr> (5::nat)
         (init\<lparr>connectionState := CONNECTED, inputGainRef := Some 1, sessionPromiseRef := Some 4,
               promise_status := (\<lambda>_. PromiseRejected)\<rparr>))
      = Inr [UnhandledRejection]"
  by (simp add: onaudioprocess_def gain_is_zero_def emit_def init_def Let_def)

text \<open>
  Claim C9, amended. The capture handler returns for every frame and leaves the
  connection state, the session promise and the session handle as they were. For a frame
  that is not muted: if the session promise is fulfilled and \<^verbatim>\<open>sendRealtimeInput\<close>
  throws, the exception is caught, the \<^verbatim>\<open>console.error\<close> entry is the only call
  recorded, and the frame is dropped; if the promise is pending the frame waits, and at
  fulfilment every waiting frame whose send throws is logged in the same way without
  stopping the others or changing the connection state; if no session promise is held
  the frame is dropped and the state, log included, is unchanged; if the promise has
  been rejected the frame is dropped with an unhandled rejection.
\<close>

theorem send_failure_contained:
  "\<exists>s'. onaudioprocess f env x s = Inr s'
      \<and> connectionState s' = connectionState s
      \<and> sessionPromiseRef s' = sessionPromiseRef s
      \<and> currentSessionRef s' = currentSessionRef s
      \<and> (\<not> gain_is_zero s \<and> sessionPromiseRef s = Some p
            \<and> promise_status s p = PromiseFulfilled session \<and> send_throws env \<longrightarrow>
           s' = emit (Console ''Error sending input:'') s)
      \<and> (\<not> gain_is_zero s \<and> sessionPromiseRef s = Some p
            \<and> promise_status s p = PromisePending \<longrightarrow>
           s' = s\<lparr>queued_sends := (queued_sends s)(p := queued_sends s p @ [f x])\<rparr>
         \<and> (\<exists>s''. session_resolved p session throws s' = Inr s''
               \<and> connectionState s'' = connectionState s
               \<and> effects s'' = effects s
                    @ map (\<lambda>(j, pcmBlob). if throws j then Console ''Error sending input:''
                                           else SendRealtimeInput session pcmBlob)
                        (enumerate 0 (queued_sends s p @ [f x]))))
      \<and> (sessionPromiseRef s = None \<longrightarrow> s' = s)
      \<and> (\<not> gain_is_zero s \<and> sessionPromiseRef s = Some p
            \<and> promise_status s p = PromiseRejected \<longrightarrow>
           s' = emit UnhandledRejection s)"
  by (auto simp: onaudioprocess_def send_frame_eq emit_def Let_def session_resolved_def
      flush_sends_eq split: option.splits promise_state.splits)

text \<open>A connected, unmuted hook: with the promise fulfilled a throwing send is logged;
  with the promise pending behind one waiting frame, the frame waits, and at fulfilment
  the first send throws and is logged while the second goes out.\<close>

theorem send_failure_contained_witness:
  "(let s = init\<lparr>connectionState := CONNECTED, inputGainRef := Some 1,
                  sessionPromiseRef := Some 4, currentSessionRef := Some 7,
                  promise_status := (\<lambda>_. PromiseFulfilled 7)\<rparr>;
        w = init\<lparr>connectionState := CONNECTED, inputGainRef := Some 1,
                  sessionPromiseRef := Some 4, queued_sends := (\<lambda>_. [blob_of 1])\<rparr>;
        env = \<lparr>send_throws = True\<rparr>
    in \<not> gain_is_zero s \<and> sessionPromiseRef s = Some 4
     \<and> promise_status s 4 = PromiseFulfilled 7 \<and> send_throws env
     \<and> onaudioprocess blob_of env (5::nat) s = Inr (s\<lparr>effects := [Console ''Error sending input:'']\<rparr>)
     \<and> \<not> gain_is_zero w \<and> sessionPromiseRef w = Some 4 \<and> promise_status w 4 = PromisePending
     \<and> map_sum id effects
          (and_then (onaudioprocess blob_of env (5::nat) w)
             (session_resolved 4 7 (\<lambda>j. j = 0)))
         = Inr [Console ''Error sending input:'', SendRealtimeInput 7 (blob_of 5)])"
proof -
  let ?s = "init\<lparr>connectionState := CONNECTED, inputGainRef := Some 1,
                  sessionPromiseRef := Some 4, currentSessionRef := Some 7,
                  promise_status := (\<lambda>_. PromiseFulfilled 7)\<rparr>"
  let ?w = "init\<lparr>connectionState := CONNECTED, inputGainRef := Some 1,
                  sessionPromiseRef := Some 4, queued_sends := (\<lambda>_. [blob_of 1])\<rparr>"
  let ?env = "\<lparr>send_throws = True\<rparr>"
  have hs: "\<not> gain_is_zero ?s \<and> sessionPromiseRef ?s = Some 4
      \<and> promise_status ?s 4 = PromiseFulfilled 7 \<and> send_throws ?env"
    by (simp add: gain_is_zero_def)
  have hw: "\<not> gain_is_zero ?w \<and> sessionPromiseRef ?w = Some 4
      \<and> promise_status ?w 4 = PromisePending"
    by (simp add: gain_is_zero_def init_def)
  from send_failure_contained [of blob_of ?env "5::nat" ?s 4 7] hs
  have a: "onaudioprocess blob_of ?env (5::nat) ?s = Inr (emit (Console ''Error sending input:'') ?s)"
    by auto
  from send_failure_contained [of blob_of ?env "5::nat" ?w 4 7 "\<lambda>j. j = 0"] hw
  obtain w' w'' where w: "onaudioprocess blob_of ?env (5::nat) ?w = Inr w'"
      "session_resolved 4 7 (\<lambda>j. j = 0) w' = Inr w''"
      "effects w'' = effects ?w
           @ map (\<lambda>(j, pcmBlob). if j = 0 then Console ''Error sending input:''
                                  else SendRealtimeInput 7 pcmBlob)
               (enumerate 0 (queued_sends ?w 4 @ [blob_of 5]))"
    by auto
  from w(3) have "effects w'' = [Console ''Error sending input:'', SendRealtimeInput 7 (blob_of 5)]"
    by (simp add: init_def)
  with a hs hw w(1,2) show ?thesis
    by (simp add: Let_def emit_def init_def)
qed

text \<open>While the gain is 0 no frame has any effect, and when the gain agrees with the mute
  state two toggles give the state back.\<close>

lemma capture_frames_muted:
  "gain_is_zero s \<Longrightarrow> capture_frames f evs s = Inr s"
  by (induction evs) (auto simp: onaudioprocess_def)

lemma toggleMute_twice:
  "inputGainRef s = Some (if isMuted s then 0 else 1) \<Longrightarrow> toggleMute (toggleMute s) = s"
  by (cases s) (simp add: toggleMute_def Let_def)

text \<open>
  Claim C3 (the code at the failing input). A first session is opened and torn down;
  teardown leaves \<open>inputGainRef\<close> on the gain node of the released graph. The user starts
  a second session and presses the mute button while \<^verbatim>\<open>connect\<close> awaits the microphone:
  \<^verbatim>\<open>toggleMute\<close> sets the mute state and writes gain 0 to the old node. The resumed
  \<^verbatim>\<open>connect\<close> then references the new gain node, of gain 1, and does not touch the mute
  state. Once the session is open and its promise fulfilled, a captured frame is sent
  although the mute state is set; and two further toggles leave the mute state set but
  move the gain from 1 to 0, so that frames are no longer sent.
\<close>

theorem muted_frame_is_sent:
  "map_sum id isMuted
     (and_then
        (connect_then decode_half_second blob_of env_ok denv_ok [Disconnect denv_ok] init)
        (connect_during_then decode_half_second blob_of env_ok denv_ok [UserToggleMute]
           [Open, Resolved 7 (\<lambda>_. False), Frame \<lparr>send_throws = False\<rparr> 5]))
     = Inr True
 \<and> map_sum id inputGainRef
     (and_then
        (connect_then decode_half_second blob_of env_ok denv_ok [Disconnect denv_ok] init)
        (connect_during_then decode_half_second blob_of env_ok denv_ok [UserToggleMute]
           [Open, Resolved 7 (\<lambda>_. False), Frame \<lparr>send_throws = False\<rparr> 5]))
     = Inr (Some 1)
 \<and> map_sum id effects
     (and_then
        (connect_then decode_half_second blob_of env_ok denv_ok [Disconnect denv_ok] init)
        (connect_during_then decode_half_second blob_of env_ok denv_ok [UserToggleMute]
           [Open, Resolved 7 (\<lambda>_. False), Frame \<lparr>send_throws = False\<rparr> 5]))
     = Inr [TrackStop 0, ContextClose 1, ContextClose 2, Console ''Session opened'',
            SendRealtimeInput 7 (blob_of 5)]
 \<and> map_sum id isMuted
     (and_then
        (connect_then decode_half_second blob_of env_ok denv_ok [Disconnect denv_ok] init)
        (connect_during_then decode_half_second blob_of env_ok denv_ok [UserToggleMute]
           [Open, Resolved 7 (\<lambda>_. False), ToggleMute, ToggleMute]))
     = Inr True
 \<and> map_sum id inputGainRef
     (and_then
        (connect_then decode_half_second blob_of env_ok denv_ok [Disconnect denv_ok] init)
        (connect_during_then decode_half_second blob_of env_ok denv_ok [UserToggleMute]
           [Open, Resolved 7 (\<lambda>_. False), ToggleMute, ToggleMute]))
     = Inr (Some 0)"
  by (simp add: handler_defs example_defs)



subsection \<open>Session lifecycle\<close>




subsection \<open>Remote close\<close>

text \<open>The test in \<^verbatim>\<open>onclose\<close> reads the binding captured when \<^verbatim>\<open>connect\<close> was called;
  unless \<^verbatim>\<open>connect\<close> was called in state \<open>CONNECTED\<close>, the handler only logs.\<close>

lemma onclose_stale:
  "cb_connectionState cb \<noteq> CONNECTED \<Longrightarrow>
     onclose cb denv s = Inr (emit (Console ''Session closed'') s)"
  by (simp add: onclose_def Let_def)

text \<open>
  Claim C7 (the code at the failing input). \<^verbatim>\<open>connect\<close> is called in the initial state
  \<open>DISCONNECTED\<close> and opens a session; \<^verbatim>\<open>onopen\<close> sets \<open>CONNECTED\<close>; the transport then
  reports close. The connection state is still \<open>CONNECTED\<close>, and the only calls issued
  are the two log entries: no teardown has run.
\<close>

theorem onclose_keeps_connected:
  "map_sum id connectionState
     (connect_then decode_half_second blob_of env_ok denv_ok [Open] init) = Inr CONNECTED
 \<and> map_sum id connectionState
     (connect_then decode_half_second blob_of env_ok denv_ok [Open, Close denv_ok] init)
       = Inr CONNECTED
 \<and> map_sum id effects
     (connect_then decode_half_second blob_of env_ok denv_ok [Open, Close denv_ok] init)
       = Inr [Console ''Session opened'', Console ''Session closed'']"
  by (simp add: handler_defs example_defs)

subsection \<open>Teardown while connecting\<close>







subsection \<open>Mute without a capture graph\<close>

text \<open>With no gain node referenced, \<^verbatim>\<open>toggleMute\<close> changes nothing.\<close>

lemma toggleMute_without_gain_node:
  "inputGainRef s = None \<Longrightarrow> toggleMute s = s"
  by (simp add: toggleMute_def)

text \<open>
  Claim C10 (the code at the failing input). \<^verbatim>\<open>connect\<close> opens a session from the
  initial state and \<^verbatim>\<open>disconnect\<close> tears it down, which resets the mute state but leaves
  \<open>inputGainRef\<close> referring to the gain node of the released graph. A \<^verbatim>\<open>toggleMute\<close>
  then sets the mute state and writes gain 0 to that node.
\<close>

theorem toggleMute_after_teardown:
  "map_sum id isMuted
     (connect_then decode_half_second blob_of env_ok denv_ok [Disconnect denv_ok] init) = Inr False
 \<and> map_sum id isMuted
     (connect_then decode_half_second blob_of env_ok denv_ok [Disconnect denv_ok, ToggleMute] init)
       = Inr True
 \<and> map_sum id inputGainRef
     (connect_then decode_half_second blob_of env_ok denv_ok [Disconnect denv_ok, ToggleMute] init)
       = Inr (Some 0)"
  by (simp add: handler_defs example_defs)


text \<open>What follows from it: \<^verbatim>\<open>connect\<close> never writes the mute state and references a
  new gain node of gain 1, so after such a toggle the next session transmits its frames
  while the mute state is set.\<close>

lemma mute_state_survives_reconnect:
  "map_sum id isMuted
     (and_then
        (connect_then decode_half_second blob_of env_ok denv_ok [Disconnect denv_ok, ToggleMute] init)
        (connect_then decode_half_second blob_of env_ok denv_ok
           [Open, Resolved 7 (\<lambda>_. False), Frame \<lparr>send_throws = False\<rparr> 5]))
     = Inr True
 \<and> map_sum id effects
     (and_then
        (connect_then decode_half_second blob_of env_ok denv_ok [Disconnect denv_ok, ToggleMute] init)
        (connect_then decode_half_second blob_of env_ok denv_ok
           [Open, Resolved 7 (\<lambda>_. False), Frame \<lparr>send_throws = False\<rparr> 5]))
     = Inr [TrackStop 0, ContextClose 1, ContextClose 2, Console ''Session opened'',
            SendRealtimeInput 7 (blob_of 5)]"
  by (simp add: handler_defs example_defs)

subsection \<open>Failures of \<^verbatim>\<open>connect\<close>\<close>








end
